theory Spec2Isabelle
  imports Main "HOL-Library.Sublist"
begin

section \<open>The augmentation endpoint: data model\<close>

text \<open>
  The repository holds two versions of one route handler, \<^verbatim>\<open>src/unnamed/part_000\<close> and
  \<^verbatim>\<open>src/unnamed/part_001\<close>. Each exports \<^verbatim>\<open>POST\<close> and keeps a private
  \<^verbatim>\<open>retrieveData\<close>. Both are embedded here; the constants of the second version carry the
  suffix \<open>_001\<close>.

  The request body is taken as already parsed and well typed: a list of \<^verbatim>\<open>CoreMessage\<close>.
  A message content is either a string or an array of part objects, as the type
  \<^verbatim>\<open>CoreMessage\<close> of the \<^verbatim>\<open>ai\<close> package allows.
\<close>

datatype part = Part (part_type: string) (part_data: string)

datatype message_content = Text string | Parts "part list"

datatype role = System | User | Assistant | Tool

record message =
  role :: role
  content :: message_content

text \<open>\<^verbatim>\<open>Array.prototype.join\<close>: the elements separated by \<open>sep\<close>.\<close>

fun join :: "string \<Rightarrow> string list \<Rightarrow> string" where
  "join sep [] = []"
| "join sep [x] = x"
| "join sep (x # y # ys) = x @ sep @ join sep (y # ys)"

text \<open>
  \<^verbatim>\<open>String(content)\<close>, which is also what a template literal does to an interpolated value:
  a string is itself, an array is its elements joined by a comma, and every plain object
  renders as \<^verbatim>\<open>[object Object]\<close>.
\<close>

fun js_String :: "message_content \<Rightarrow> string" where
  "js_String (Text s) = s"
| "js_String (Parts ps) = join '','' (map (\<lambda>p. ''[object Object]'') ps)"

subsection \<open>Values parsed from JSON\<close>

text \<open>
  What \<^verbatim>\<open>response.json()\<close> yields. A number is kept by its canonical rendering
  (\<^verbatim>\<open>Number.prototype.toString\<close>), which is all the handler depends on: zero, the only
  falsy number JSON can denote, renders as \<^verbatim>\<open>0\<close>; a literal beyond the range of a
  double, such as \<^verbatim>\<open>1e400\<close>, parses to an infinity, which renders as \<^verbatim>\<open>Infinity\<close> or
  \<^verbatim>\<open>-Infinity\<close>. An object is the list of its own properties in enumeration order.
\<close>

datatype json =
    JNull
  | JBool bool
  | JNum string
  | JStr string
  | JArr "json list"
  | JObj "(string \<times> json) list"

text \<open>The truthiness test that \<^verbatim>\<open>if (... && context)\<close> applies.\<close>

fun truthy :: "json \<Rightarrow> bool" where
  "truthy JNull = False"
| "truthy (JBool b) = b"
| "truthy (JNum n) = (n \<noteq> ''0'')"
| "truthy (JStr s) = (s \<noteq> [])"
| "truthy (JArr vs) = True"
| "truthy (JObj kvs) = True"

definition hex_digit :: "nat \<Rightarrow> char" where
  "hex_digit n = ''0123456789abcdef'' ! (n mod 16)"

text \<open>The escapes of \<^verbatim>\<open>QuoteJSONString\<close> on one character.\<close>

definition json_escape :: "char \<Rightarrow> string" where
  "json_escape c =
     (let n = (of_char c :: nat) in
      if n = 0x08 then [CHR 0x5C, CHR ''b'']
      else if n = 0x09 then [CHR 0x5C, CHR ''t'']
      else if n = 0x0A then [CHR 0x5C, CHR ''n'']
      else if n = 0x0C then [CHR 0x5C, CHR ''f'']
      else if n = 0x0D then [CHR 0x5C, CHR ''r'']
      else if n = 0x22 then [CHR 0x5C, CHR 0x22]
      else if n = 0x5C then [CHR 0x5C, CHR 0x5C]
      else if n < 0x20 then [CHR 0x5C] @ ''u00'' @ [hex_digit (n div 16), hex_digit n]
      else [c])"

definition QuoteJSONString :: "string \<Rightarrow> string" where
  "QuoteJSONString s = [CHR 0x22] @ concat (map json_escape s) @ [CHR 0x22]"

text \<open>
  \<^verbatim>\<open>JSON.stringify\<close> with no indentation, on a value parsed from JSON. A number that
  is not finite is written \<^verbatim>\<open>null\<close>; every other number is written as it renders.
\<close>

definition non_finite :: "string \<Rightarrow> bool" where
  "non_finite n = (n = ''Infinity'' \<or> n = ''-Infinity'' \<or> n = ''NaN'')"

fun JSON_stringify :: "json \<Rightarrow> string" where
  "JSON_stringify JNull = ''null''"
| "JSON_stringify (JBool b) = (if b then ''true'' else ''false'')"
| "JSON_stringify (JNum n) = (if non_finite n then ''null'' else n)"
| "JSON_stringify (JStr s) = QuoteJSONString s"
| "JSON_stringify (JArr vs) = ''['' @ join '','' (map JSON_stringify vs) @ '']''"
| "JSON_stringify (JObj kvs) =
     ''{'' @ join '','' (map (\<lambda>(k, v). QuoteJSONString k @ '':'' @ JSON_stringify v) kvs) @ ''}''"

subsection \<open>Environment, outbound calls, errors\<close>

text \<open>\<^verbatim>\<open>process.env\<close>: each variable is a string or undefined.\<close>

record env =
  MODEL :: "string option"
  VECTORIZE_TOKEN :: "string option"
  VECTORIZE_RETRIEVAL_URL :: "string option"
  GROQ_API_KEY :: "string option"

text \<open>
  The guard \<^verbatim>\<open>if (!v) throw\<close>: undefined and the empty string are both falsy; past the
  guard the value is a non-empty string.
\<close>

fun truthy_env :: "string option \<Rightarrow> string option" where
  "truthy_env None = None"
| "truthy_env (Some s) = (if s = [] then None else Some s)"

text \<open>
  The object handed to \<^verbatim>\<open>JSON.stringify\<close> as the body of the retrieval request. The
  optional property \<^verbatim>\<open>context\<close> is \<open>Some ms\<close> for \<^verbatim>\<open>{ messages: ms }\<close>.
\<close>

record payload =
  question :: string
  numResults :: nat
  rerank :: bool
  payload_context :: "message list option"

text \<open>
  The arguments of the one \<^verbatim>\<open>fetch\<close>: the URL and, of the options object, the HTTP method
  (\<open>http_method\<close>), the headers in the order written and the body before serialisation.
\<close>

record fetch_request =
  url :: string
  http_method :: string
  headers :: "(string \<times> string) list"
  body :: payload

text \<open>
  What the retrieval service answers: the fetch promise rejects, or it resolves to a
  response whose body parses as JSON (\<open>Some\<close>) or does not (\<open>None\<close>).
\<close>

record http_response =
  ok :: bool
  statusText :: string
  json_body :: "json option"

datatype fetch_result = Rejected | Response http_response

record stream_args =
  model :: string
  system :: string
  messages :: "message list"

text \<open>
  The outbound calls of one request, in the order they are made. A fetch is recorded with
  the result it settled with: the handler awaits it before going on.
\<close>

datatype event = Fetch fetch_request fetch_result | StreamText stream_args

text \<open>
  What the handler throws: its own \<^verbatim>\<open>new Error(message)\<close>, the \<^verbatim>\<open>TypeError\<close> of a
  rejected fetch, the \<^verbatim>\<open>SyntaxError\<close> of a body that is not JSON.
\<close>

datatype error = Error string | TypeError | SyntaxError

definition MODEL_not_set :: string where
  "MODEL_not_set = ''MODEL is not set in the environment variables. Please add it to your environment settings (e.g. .env.develoment) file.''"

definition VECTORIZE_TOKEN_not_set :: string where
  "VECTORIZE_TOKEN_not_set = ''VECTORIZE_TOKEN is not set in the environment variables. Please add it to your environment settings (e.g. .env.develoment) file.''"

definition pipelineRetrievalUrl_not_set :: string where
  "pipelineRetrievalUrl_not_set = ''pipelineRetrievalUrl is not set. Please define the URL in the environment settings (e.g. in the file .env.development) before calling retrieveData.''"

definition GROQ_API_KEY_not_set :: string where
  "GROQ_API_KEY_not_set = ''GROQ_API_KEY is not set in the environment variables. Please add it to your environment settings (e.g. .env.develoment) file.''"

definition system_instruction :: string where
  "system_instruction = ''You are the best Hypertension Doctor capable of generating the best treatment plan based on the patient overview. You always generate your responses as correctly structured, valid markdown.''"

section \<open>Version \<^verbatim>\<open>part_000\<close>\<close>

text \<open>
  The template literal assigned to the last message, cut at its two interpolations:
  the text before the question, between the question and the chunks, and after the chunks.
\<close>

definition prompt_head_000 :: string where
  "prompt_head_000 =
     ''\<newline>'' @
     ''You are tasked with generating a treatment plan using provided chunks of information, consider first steps first before using medications. Your goal is to provide an accurate answer while citing your sources using a specific markdown format.\<newline>'' @
     ''\<newline>'' @
     ''Here is the question you need to answer:\<newline>'' @
     ''<question>\<newline>''"

definition prompt_mid_000 :: string where
  "prompt_mid_000 =
     ''\<newline>'' @
     ''</question>\<newline>'' @
     ''\<newline>'' @
     ''Below are chunks of information that you can use to answer the question. Each chunk is preceded by a \<newline>'' @
     ''source identifier in the format [source=X&link=Y], where X is the source number and Y is the URL of the source:\<newline>'' @
     ''\<newline>'' @
     ''<chunks>\<newline>''"

definition prompt_tail_000 :: string where
  "prompt_tail_000 =
     ''\<newline>'' @
     ''</chunks>\<newline>'' @
     ''\<newline>'' @
     ''Your task is to answer the question using the information provided in these chunks. \<newline>'' @
     ''When you use information from a specific chunk in your answer, you must cite it using a markdown link format. \<newline>'' @
     ''The citation should appear at the end of the sentence where the information is used.\<newline>'' @
     ''\<newline>'' @
     ''If you cannot answer the question using the provided chunks, say '' @ [CHR 0x22] @ ''Sorry I don't know'' @ [CHR 0x22] @ ''.\<newline>'' @
     ''\<newline>'' @
     ''The citation format should be as follows:\<newline>'' @
     ''[Chunk source](URL)\<newline>'' @
     ''\<newline>'' @
     ''For example, if you're using information from the chunk labeled [source=3&link=https://example.com/page], your citation would look like this:\<newline>'' @
     ''[3](https://example.com/page) and would open a new tab to the source URL when clicked.\<newline>''"

text \<open>
  \<^verbatim>\<open>retrieveData(question, messages)\<close>. The three guards come first, in the order of the
  source; then the payload, the one fetch, the status check and the parse of the body.
\<close>

definition retrieveData ::
  "env \<Rightarrow> (fetch_request \<Rightarrow> fetch_result) \<Rightarrow> string \<Rightarrow> message list \<Rightarrow> event list \<times> (error + json)" where
  "retrieveData e fetch q ms =
     (case truthy_env (VECTORIZE_TOKEN e) of
        None \<Rightarrow> ([], Inl (Error VECTORIZE_TOKEN_not_set))
      | Some token \<Rightarrow>
     (case truthy_env (VECTORIZE_RETRIEVAL_URL e) of
        None \<Rightarrow> ([], Inl (Error pipelineRetrievalUrl_not_set))
      | Some pipelineRetrievalUrl \<Rightarrow>
     (case truthy_env (GROQ_API_KEY e) of
        None \<Rightarrow> ([], Inl (Error GROQ_API_KEY_not_set))
      | Some groqApiKey \<Rightarrow>
          let p = \<lparr>question = q, numResults = 5, rerank = True,
                   payload_context = (if ms \<noteq> [] then Some ms else None)\<rparr>;
              req = \<lparr>url = pipelineRetrievalUrl, http_method = ''POST'',
                     headers = [(''Content-Type'', ''application/json''), (''Authorization'', token)],
                     body = p\<rparr>
          in (case fetch req of
                Rejected \<Rightarrow> ([Fetch req Rejected], Inl TypeError)
              | Response response \<Rightarrow>
                  if \<not> ok response
                  then ([Fetch req (Response response)],
                        Inl (Error (''Failed to fetch data: '' @ statusText response)))
                  else (case json_body response of
                          None \<Rightarrow> ([Fetch req (Response response)], Inl SyntaxError)
                        | Some data \<Rightarrow> ([Fetch req (Response response)], Inr data))))))"

text \<open>
  \<^verbatim>\<open>POST(req)\<close>, from the parsed \<^verbatim>\<open>messages\<close> on. The result is the list of outbound
  calls made and either the error thrown or the arguments \<^verbatim>\<open>streamText\<close> was called with,
  whose stream the handler returns as the response. \<^verbatim>\<open>context\<close> starts as \<^verbatim>\<open>null\<close>.
\<close>

definition POST ::
  "env \<Rightarrow> (fetch_request \<Rightarrow> fetch_result) \<Rightarrow> message list \<Rightarrow> event list \<times> (error + stream_args)" where
  "POST e fetch ms =
     (case truthy_env (MODEL e) of
        None \<Rightarrow> ([], Inl (Error MODEL_not_set))
      | Some mdl \<Rightarrow>
          (case (if ms \<noteq> []
                 then retrieveData e fetch (js_String (content (last ms))) (butlast ms)
                 else ([], Inr JNull)) of
             (tr, Inl err) \<Rightarrow> (tr, Inl err)
           | (tr, Inr ctx) \<Rightarrow>
               let ms' = (if ms \<noteq> [] \<and> truthy ctx
                          then ms[length ms - 1 := (last ms)\<lparr>content :=
                                 Text (prompt_head_000 @ js_String (content (last ms)) @
                                       prompt_mid_000 @ JSON_stringify ctx @ prompt_tail_000)\<rparr>]
                          else ms);
                   args = \<lparr>model = mdl, system = system_instruction, messages = ms'\<rparr>
               in (tr @ [StreamText args], Inr args)))"

section \<open>Version \<^verbatim>\<open>part_001\<close>\<close>

definition prompt_head_001 :: string where
  "prompt_head_001 =
     ''\<newline>'' @
     ''Generate a detailed treatment plan for the following patient. Your answer must follow a structured format and provide clear step-by-step recommendations before introducing medications.\<newline>'' @
     ''\<newline>'' @
     ''Output Structure:\<newline>'' @
     ''\<newline>'' @
     ''Patient Overview: Brief summary of the patient's condition.\<newline>'' @
     ''Lifestyle Modifications (First-Line Treatment, consider lifestyle modifications before medications)\<newline>'' @
     ''Dietary Changes: Provide a detailed and structured diet plan using Zambian foods, including specific foods to include and avoid (e.g., DASH Diet specifics).\<newline>'' @
     ''Physical Activity: Recommended detailed exercises with intensity and frequency.\<newline>'' @
     ''Weight Management Strategy: Target weight, expected reduction per week, and approach.\<newline>'' @
     ''Alcohol and Smoking: Limits and alternatives for patients struggling to quit.\<newline>'' @
     ''Pharmacological Intervention (If Lifestyle Fails to Achieve Target BP)\<newline>'' @
     ''Medication Options: Explain the first-line medications and alternatives based on patient profile (e.g., African ethnicity considerations).\<newline>'' @
     ''Monitoring & Follow-Up Plan\<newline>'' @
     ''BP Check Intervals: Frequency of follow-ups.\<newline>'' @
     ''Tests Required: What are the tests required according to guidelines.\<newline>'' @
     ''Special Considerations: Address ethnic, family history, and potential risks for progression to diabetes.\<newline>'' @
     ''\<newline>'' @
     ''Here is the patient info where you need to generate treatment plan:\<newline>'' @
     ''\<newline>'' @
     ''<question>\<newline>''"

definition prompt_mid_001 :: string where
  "prompt_mid_001 =
     ''\<newline>'' @
     ''</question>\<newline>'' @
     ''\<newline>'' @
     ''Below are chunks of information that you can use to answer the question. Each chunk is preceded by a \<newline>'' @
     ''source identifier in the format [source=X&link=Y], where X is the source number and Y is the URL of the source:\<newline>'' @
     ''\<newline>'' @
     ''<chunks>\<newline>''"

definition prompt_tail_001 :: string where
  "prompt_tail_001 =
     ''\<newline>'' @
     ''</chunks>\<newline>''"

text \<open>
  \<^verbatim>\<open>retrieveData(question, messages)\<close>. The three guards come first, in the order of the
  source; then the payload, the one fetch, the status check and the parse of the body.
\<close>

definition retrieveData_001 ::
  "env \<Rightarrow> (fetch_request \<Rightarrow> fetch_result) \<Rightarrow> string \<Rightarrow> message list \<Rightarrow> event list \<times> (error + json)" where
  "retrieveData_001 e fetch q ms =
     (case truthy_env (VECTORIZE_TOKEN e) of
        None \<Rightarrow> ([], Inl (Error VECTORIZE_TOKEN_not_set))
      | Some token \<Rightarrow>
     (case truthy_env (VECTORIZE_RETRIEVAL_URL e) of
        None \<Rightarrow> ([], Inl (Error pipelineRetrievalUrl_not_set))
      | Some pipelineRetrievalUrl \<Rightarrow>
     (case truthy_env (GROQ_API_KEY e) of
        None \<Rightarrow> ([], Inl (Error GROQ_API_KEY_not_set))
      | Some groqApiKey \<Rightarrow>
          let p = \<lparr>question = q, numResults = 5, rerank = True,
                   payload_context = (if ms \<noteq> [] then Some ms else None)\<rparr>;
              req = \<lparr>url = pipelineRetrievalUrl, http_method = ''POST'',
                     headers = [(''Content-Type'', ''application/json''), (''Authorization'', token)],
                     body = p\<rparr>
          in (case fetch req of
                Rejected \<Rightarrow> ([Fetch req Rejected], Inl TypeError)
              | Response response \<Rightarrow>
                  if \<not> ok response
                  then ([Fetch req (Response response)],
                        Inl (Error (''Failed to fetch data: '' @ statusText response)))
                  else (case json_body response of
                          None \<Rightarrow> ([Fetch req (Response response)], Inl SyntaxError)
                        | Some data \<Rightarrow> ([Fetch req (Response response)], Inr data))))))"

text \<open>
  \<^verbatim>\<open>POST(req)\<close>, from the parsed \<^verbatim>\<open>messages\<close> on. The result is the list of outbound
  calls made and either the error thrown or the arguments \<^verbatim>\<open>streamText\<close> was called with,
  whose stream the handler returns as the response. \<^verbatim>\<open>context\<close> starts as \<^verbatim>\<open>null\<close>.
\<close>

definition POST_001 ::
  "env \<Rightarrow> (fetch_request \<Rightarrow> fetch_result) \<Rightarrow> message list \<Rightarrow> event list \<times> (error + stream_args)" where
  "POST_001 e fetch ms =
     (case truthy_env (MODEL e) of
        None \<Rightarrow> ([], Inl (Error MODEL_not_set))
      | Some mdl \<Rightarrow>
          (case (if ms \<noteq> []
                 then retrieveData_001 e fetch (js_String (content (last ms))) (butlast ms)
                 else ([], Inr JNull)) of
             (tr, Inl err) \<Rightarrow> (tr, Inl err)
           | (tr, Inr ctx) \<Rightarrow>
               let ms' = (if ms \<noteq> [] \<and> truthy ctx
                          then ms[length ms - 1 := (last ms)\<lparr>content :=
                                 Text (prompt_head_001 @ js_String (content (last ms)) @
                                       prompt_mid_001 @ JSON_stringify ctx @ prompt_tail_001)\<rparr>]
                          else ms);
                   args = \<lparr>model = mdl, system = system_instruction, messages = ms'\<rparr>
               in (tr @ [StreamText args], Inr args)))"

section \<open>Example inputs\<close>

text \<open>
  A complete environment, the one-question Conversation of the scenarios, two chunks
  with the fields of a RetrievedChunk, a retrieval service that answers every request
  with the given JSON value, and one that answers with a server error.
\<close>

definition example_env :: env where
  "example_env =
     \<lparr>MODEL = Some ''llama-3.3-70b-versatile'', VECTORIZE_TOKEN = Some ''token'',
       VECTORIZE_RETRIEVAL_URL = Some ''https://retrieval.example/pipeline'',
       GROQ_API_KEY = Some ''key''\<rparr>"

definition example_messages :: "message list" where
  "example_messages = [\<lparr>role = User, content = Text ''What is Hypertension?''\<rparr>]"

definition example_chunk_1 :: json where
  "example_chunk_1 =
     JObj [(''sourceIndex'', JNum ''1''), (''sourceUrl'', JStr ''https://a.example/x''),
           (''content'', JStr ''Reduce salt.''), (''relevanceScore'', JNum ''0.87'')]"

definition example_chunk_2 :: json where
  "example_chunk_2 =
     JObj [(''sourceIndex'', JNum ''2''), (''sourceUrl'', JStr ''https://b.example/y''),
           (''content'', JStr ''Walk daily.'')]"

definition example_chunks :: "json list" where
  "example_chunks = [example_chunk_1, example_chunk_2]"

definition example_response :: "json \<Rightarrow> http_response" where
  "example_response data = \<lparr>ok = True, statusText = ''OK'', json_body = Some data\<rparr>"

definition example_fetch :: "json \<Rightarrow> fetch_request \<Rightarrow> fetch_result" where
  "example_fetch data req = Response (example_response data)"

definition error_response :: http_response where
  "error_response = \<lparr>ok = False, statusText = ''Internal Server Error'', json_body = None\<rparr>"

definition failing_fetch :: "fetch_request \<Rightarrow> fetch_result" where
  "failing_fetch req = Response error_response"

definition example_request :: fetch_request where
  "example_request =
     \<lparr>url = ''https://retrieval.example/pipeline'', http_method = ''POST'',
       headers = [(''Content-Type'', ''application/json''), (''Authorization'', ''token'')],
       body = \<lparr>question = ''What is Hypertension?'', numResults = 5, rerank = True,
                payload_context = None\<rparr>\<rparr>"

definition example_args :: "string \<Rightarrow> stream_args" where
  "example_args c =
     \<lparr>model = ''llama-3.3-70b-versatile'', system = system_instruction,
       messages = [\<lparr>role = User, content = Text c\<rparr>]\<rparr>"

definition example_prompt_000 :: "json \<Rightarrow> string" where
  "example_prompt_000 data =
     prompt_head_000 @ ''What is Hypertension?'' @ prompt_mid_000 @ JSON_stringify data @
     prompt_tail_000"

definition example_prompt_001 :: "json \<Rightarrow> string" where
  "example_prompt_001 data =
     prompt_head_001 @ ''What is Hypertension?'' @ prompt_mid_001 @ JSON_stringify data @
     prompt_tail_001"

text \<open>
  Variants of the environment with one variable unset, a three-turn Conversation with
  the request and the generation arguments of its run, and the generation arguments of
  the run on no turns.
\<close>

definition example_env_no_token :: env where
  "example_env_no_token = example_env\<lparr>VECTORIZE_TOKEN := None\<rparr>"

definition example_env_no_model :: env where
  "example_env_no_model = example_env\<lparr>MODEL := None\<rparr>"

definition empty_args :: stream_args where
  "empty_args = \<lparr>model = ''llama-3.3-70b-versatile'', system = system_instruction, messages = []\<rparr>"

definition example_dialogue :: "message list" where
  "example_dialogue =
     [\<lparr>role = User, content = Text ''What is Hypertension?''\<rparr>,
      \<lparr>role = Assistant, content = Text ''Persistently raised blood pressure.''\<rparr>,
      \<lparr>role = User, content = Text ''How is it treated?''\<rparr>]"

definition example_dialogue_request :: fetch_request where
  "example_dialogue_request =
     \<lparr>url = ''https://retrieval.example/pipeline'', http_method = ''POST'',
       headers = [(''Content-Type'', ''application/json''), (''Authorization'', ''token'')],
       body = \<lparr>question = ''How is it treated?'', numResults = 5, rerank = True,
                payload_context = Some
                  [\<lparr>role = User, content = Text ''What is Hypertension?''\<rparr>,
                   \<lparr>role = Assistant, content = Text ''Persistently raised blood pressure.''\<rparr>]\<rparr>\<rparr>"

definition example_dialogue_args :: "json \<Rightarrow> stream_args" where
  "example_dialogue_args data =
     \<lparr>model = ''llama-3.3-70b-versatile'', system = system_instruction,
       messages =
         [\<lparr>role = User, content = Text ''What is Hypertension?''\<rparr>,
          \<lparr>role = Assistant, content = Text ''Persistently raised blood pressure.''\<rparr>,
          \<lparr>role = User, content = Text (prompt_head_000 @ ''How is it treated?'' @
             prompt_mid_000 @ JSON_stringify data @ prompt_tail_000)\<rparr>]\<rparr>"

text \<open>
  The JSON texts of the two example chunks, character by character, as
  \<^verbatim>\<open>JSON.stringify\<close> writes them.
\<close>

definition example_chunk_text_1 :: string where
  "example_chunk_text_1 =
     ''{'' @ [CHR 0x22] @ ''sourceIndex'' @ [CHR 0x22] @ '':1,'' @ [CHR 0x22] @
      ''sourceUrl'' @ [CHR 0x22] @ '':'' @ [CHR 0x22] @ ''https://a.example/x'' @
      [CHR 0x22] @ '','' @ [CHR 0x22] @ ''content'' @ [CHR 0x22] @ '':'' @ [CHR 0x22] @
      ''Reduce salt.'' @ [CHR 0x22] @ '','' @ [CHR 0x22] @ ''relevanceScore'' @
      [CHR 0x22] @ '':0.87}''"

definition example_chunk_text_2 :: string where
  "example_chunk_text_2 =
     ''{'' @ [CHR 0x22] @ ''sourceIndex'' @ [CHR 0x22] @ '':2,'' @ [CHR 0x22] @
      ''sourceUrl'' @ [CHR 0x22] @ '':'' @ [CHR 0x22] @ ''https://b.example/y'' @
      [CHR 0x22] @ '','' @ [CHR 0x22] @ ''content'' @ [CHR 0x22] @ '':'' @ [CHR 0x22] @
      ''Walk daily.'' @ [CHR 0x22] @ ''}''"

text \<open>
  A string that \<^verbatim>\<open>QuoteJSONString\<close> leaves as it is between the quotes: no control
  character, no double quote, no backslash.
\<close>

definition needs_no_escape :: "string \<Rightarrow> bool" where
  "needs_no_escape s =
     list_all (\<lambda>c. 0x20 \<le> (of_char c :: nat) \<and> (of_char c :: nat) \<noteq> 0x22 \<and>
                   (of_char c :: nat) \<noteq> 0x5C) s"

section \<open>What one run of the handler does\<close>

lemma retrieveData_001_eq: "retrieveData_001 = retrieveData"
  by (intro ext) (simp add: retrieveData_001_def retrieveData_def)

lemma retrieveData_Inr:
  assumes "retrieveData e fetch q ms = (tr, Inr data)"
  shows "\<exists>req r. tr = [Fetch req (Response r)] \<and> fetch req = Response r \<and> ok r \<and>
           json_body r = Some data"
  using assms
  by (auto simp: retrieveData_def Let_def split: option.splits fetch_result.splits if_splits)

lemma retrieveData_Fetch:
  assumes "Fetch req res \<in> set (fst (retrieveData e fetch q ms))"
  shows "\<exists>token u k. truthy_env (VECTORIZE_TOKEN e) = Some token \<and>
           truthy_env (VECTORIZE_RETRIEVAL_URL e) = Some u \<and>
           truthy_env (GROQ_API_KEY e) = Some k \<and>
           req = \<lparr>url = u, http_method = ''POST'',
                   headers = [(''Content-Type'', ''application/json''), (''Authorization'', token)],
                   body = \<lparr>question = q, numResults = 5, rerank = True,
                            payload_context = (if ms \<noteq> [] then Some ms else None)\<rparr>\<rparr> \<and>
           res = fetch req \<and> fst (retrieveData e fetch q ms) = [Fetch req res]"
  using assms
  by (auto simp: retrieveData_def Let_def split: option.splits fetch_result.splits if_splits)

lemma retrieveData_not_ok:
  assumes "fst (retrieveData e fetch q ms) = [Fetch req (Response r)]" and "\<not> ok r"
  shows "snd (retrieveData e fetch q ms) = Inl (Error (''Failed to fetch data: '' @ statusText r))"
  using assms
  by (auto simp: retrieveData_def Let_def split: option.splits fetch_result.splits if_splits)

lemma retrieveData_config_error:
  assumes "truthy_env (VECTORIZE_TOKEN e) = None \<or> truthy_env (VECTORIZE_RETRIEVAL_URL e) = None \<or>
           truthy_env (GROQ_API_KEY e) = None"
  shows "retrieveData e fetch q ms \<in>
           {([], Inl (Error VECTORIZE_TOKEN_not_set)), ([], Inl (Error pipelineRetrievalUrl_not_set)),
            ([], Inl (Error GROQ_API_KEY_not_set))}"
  using assms by (auto simp: retrieveData_def split: option.splits)

lemma POST_empty:
  "POST e fetch [] =
     (case truthy_env (MODEL e) of
        None \<Rightarrow> ([], Inl (Error MODEL_not_set))
      | Some mdl \<Rightarrow>
          ([StreamText \<lparr>model = mdl, system = system_instruction, messages = []\<rparr>],
           Inr \<lparr>model = mdl, system = system_instruction, messages = []\<rparr>))"
  by (simp add: POST_def Let_def split: option.splits)

lemma POST_001_empty:
  "POST_001 e fetch [] = POST e fetch []"
  by (simp add: POST_001_def POST_def Let_def split: option.splits)

lemma POST_Fetch:
  assumes "Fetch req res \<in> set (fst (POST e fetch ms))"
  shows "ms \<noteq> [] \<and>
         Fetch req res \<in> set (fst (retrieveData e fetch (js_String (content (last ms))) (butlast ms)))"
  using assms
  by (auto simp: POST_def Let_def split: option.splits if_splits sum.splits prod.splits)

lemma POST_Inl:
  assumes "ms \<noteq> []"
    and "snd (retrieveData e fetch (js_String (content (last ms))) (butlast ms)) = Inl err"
    and "truthy_env (MODEL e) = Some mdl"
  shows "POST e fetch ms =
           (fst (retrieveData e fetch (js_String (content (last ms))) (butlast ms)), Inl err)"
  using assms
  by (auto simp: POST_def Let_def split: option.splits if_splits sum.splits prod.splits)

lemma POST_StreamText:
  assumes "StreamText a \<in> set (fst (POST e fetch ms))"
  shows "snd (POST e fetch ms) = Inr a"
proof (cases "ms = []")
  case True
  with assms show ?thesis
    by (auto simp: POST_empty split: option.splits)
next
  case False
  let ?rd = "retrieveData e fetch (js_String (content (last ms))) (butlast ms)"
  have no: "StreamText a \<notin> set (fst ?rd)"
    by (auto simp: retrieveData_def Let_def split: option.splits fetch_result.splits if_splits)
  obtain tr0 out where rd: "?rd = (tr0, out)"
    by (cases ?rd)
  with no have no': "StreamText a \<notin> set tr0" by simp
  from assms False rd no' show ?thesis
    by (cases out) (auto simp: POST_def Let_def split: option.splits)
qed

text \<open>
  A run on a non-empty Conversation that reaches \<^verbatim>\<open>streamText\<close> made exactly one fetch
  before, which settled with a success response whose body parsed.
\<close>

lemma POST_success:
  assumes "POST e fetch ms = (tr, Inr a)" and "ms \<noteq> []"
  shows "\<exists>req r ctx mdl.
           tr = [Fetch req (Response r), StreamText a] \<and> fetch req = Response r \<and> ok r \<and>
           json_body r = Some ctx \<and> truthy_env (MODEL e) = Some mdl \<and>
           a = \<lparr>model = mdl, system = system_instruction,
                 messages = (if truthy ctx
                   then ms[length ms - 1 := (last ms)\<lparr>content :=
                          Text (prompt_head_000 @ js_String (content (last ms)) @
                                prompt_mid_000 @ JSON_stringify ctx @ prompt_tail_000)\<rparr>]
                   else ms)\<rparr>"
proof -
  let ?rd = "retrieveData e fetch (js_String (content (last ms))) (butlast ms)"
  from assms obtain mdl where m: "truthy_env (MODEL e) = Some mdl"
    by (auto simp: POST_def split: option.splits)
  obtain tr0 out where rd: "?rd = (tr0, out)"
    by (cases ?rd)
  from assms m rd obtain ctx where out: "out = Inr ctx"
    by (cases out) (auto simp: POST_def)
  from retrieveData_Inr [OF rd [unfolded out]] obtain req r where
    f: "tr0 = [Fetch req (Response r)]" "fetch req = Response r" "ok r" "json_body r = Some ctx"
    by blast
  from assms m rd out f show ?thesis
    by (auto simp: POST_def Let_def)
qed

lemma POST_001_success:
  assumes "POST_001 e fetch ms = (tr, Inr a)" and "ms \<noteq> []"
  shows "\<exists>req r ctx mdl.
           tr = [Fetch req (Response r), StreamText a] \<and> fetch req = Response r \<and> ok r \<and>
           json_body r = Some ctx \<and> truthy_env (MODEL e) = Some mdl \<and>
           a = \<lparr>model = mdl, system = system_instruction,
                 messages = (if truthy ctx
                   then ms[length ms - 1 := (last ms)\<lparr>content :=
                          Text (prompt_head_001 @ js_String (content (last ms)) @
                                prompt_mid_001 @ JSON_stringify ctx @ prompt_tail_001)\<rparr>]
                   else ms)\<rparr>"
proof -
  let ?rd = "retrieveData e fetch (js_String (content (last ms))) (butlast ms)"
  from assms obtain mdl where m: "truthy_env (MODEL e) = Some mdl"
    by (auto simp: POST_001_def split: option.splits)
  obtain tr0 out where rd: "?rd = (tr0, out)"
    by (cases ?rd)
  from assms m rd obtain ctx where out: "out = Inr ctx"
    by (cases out) (auto simp: POST_001_def retrieveData_001_eq)
  from retrieveData_Inr [OF rd [unfolded out]] obtain req r where
    f: "tr0 = [Fetch req (Response r)]" "fetch req = Response r" "ok r" "json_body r = Some ctx"
    by blast
  from assms m rd out f show ?thesis
    by (auto simp: POST_001_def Let_def retrieveData_001_eq)
qed

lemma last_update_last: "ms \<noteq> [] \<Longrightarrow> last (ms[length ms - Suc 0 := x]) = x"
  by (simp add: last_list_update)

lemma butlast_update_last: "butlast (ms[length ms - Suc 0 := x]) = butlast ms"
  by (simp add: butlast_list_update)

lemma map_role_update_last:
  "ms \<noteq> [] \<Longrightarrow> map role (ms[length ms - Suc 0 := (last ms)\<lparr>content := x\<rparr>]) = map role ms"
  by (cases ms rule: rev_cases) simp_all

subsection \<open>The serialised result inside the prompt\<close>

lemma sublist_join: "x \<in> set xs \<Longrightarrow> sublist x (join sep xs)"
proof (induction sep xs rule: join.induct)
  case (3 sep a b ys)
  show ?case
  proof (cases "x = a")
    case True
    then show ?thesis by simp
  next
    case False
    with 3 have "sublist x (join sep (b # ys))" by simp
    then show ?thesis
      by (metis join.simps(3) sublist_append append_assoc)
  qed
qed simp_all

lemma sublist_stringify_element:
  assumes "c \<in> set cs"
  shows "sublist (JSON_stringify c) (JSON_stringify (JArr cs))"
proof -
  from assms have "sublist (JSON_stringify c) (join '','' (map JSON_stringify cs))"
    by (intro sublist_join) simp
  then show ?thesis
    by (metis JSON_stringify.simps(5) sublist_append)
qed

lemma sublist_wrap:
  assumes "sublist x c"
  shows "sublist x (a @ c @ b)"
proof -
  from assms obtain ps ss where "c = ps @ x @ ss"
    by (auto simp: sublist_def)
  then have "a @ c @ b = (a @ ps) @ x @ (ss @ b)"
    by simp
  then show ?thesis
    unfolding sublist_def by blast
qed

lemma sublist_in_prompt:
  assumes "sublist x c"
  shows "sublist x (h @ q @ m @ c @ t)"
proof -
  from assms have "sublist x ((h @ q @ m) @ c @ t)"
    by (rule sublist_wrap)
  then show ?thesis by simp
qed

lemma sublist_stringify_property:
  assumes "(k, v) \<in> set kvs"
  shows "sublist (QuoteJSONString k @ '':'' @ JSON_stringify v) (JSON_stringify (JObj kvs))"
proof -
  let ?f = "\<lambda>(k, v). QuoteJSONString k @ '':'' @ JSON_stringify v"
  from assms have "?f (k, v) \<in> ?f ` set kvs"
    by (rule imageI)
  then have "QuoteJSONString k @ '':'' @ JSON_stringify v \<in> set (map ?f kvs)"
    by simp
  then have "sublist (QuoteJSONString k @ '':'' @ JSON_stringify v) (join '','' (map ?f kvs))"
    by (rule sublist_join)
  then have "sublist (QuoteJSONString k @ '':'' @ JSON_stringify v)
               (''{'' @ join '','' (map ?f kvs) @ ''}'')"
    by (rule sublist_wrap)
  then show ?thesis
    by (simp only: JSON_stringify.simps)
qed

lemma escape_plain:
  "needs_no_escape s \<Longrightarrow> concat (map json_escape s) = s"
  by (induction s) (auto simp: needs_no_escape_def json_escape_def Let_def)

lemma Quote_plain:
  "needs_no_escape s \<Longrightarrow> QuoteJSONString s = [CHR 0x22] @ s @ [CHR 0x22]"
  by (simp add: QuoteJSONString_def escape_plain)

lemma sublist_plain_property:
  assumes "JObj kvs \<in> set cs" and "(k, JStr s) \<in> set kvs"
    and "needs_no_escape k" and "needs_no_escape s"
  shows "sublist ([CHR 0x22] @ k @ [CHR 0x22] @ '':'' @ [CHR 0x22] @ s @ [CHR 0x22])
           (JSON_stringify (JArr cs))"
proof -
  from sublist_stringify_property [OF assms(2)] assms(3,4)
  have "sublist ([CHR 0x22] @ k @ [CHR 0x22] @ '':'' @ [CHR 0x22] @ s @ [CHR 0x22])
          (JSON_stringify (JObj kvs))"
    by (simp add: Quote_plain)
  moreover from assms(1) have "sublist (JSON_stringify (JObj kvs)) (JSON_stringify (JArr cs))"
    by (rule sublist_stringify_element)
  ultimately show ?thesis
    by (rule sublist_order.order.trans)
qed

lemma prompts_differ: "prompt_head_000 @ x \<noteq> prompt_head_001 @ y"
  by (simp add: prompt_head_000_def prompt_head_001_def)

lemma citation_rules_000:
  "sublist ''[Chunk source](URL)'' prompt_tail_000 \<and>
   sublist ''[3](https://example.com/page)'' prompt_tail_000"
  by (simp add: prompt_tail_000_def sublist_Cons_right)

lemma example_prompts_differ: "example_prompt_000 data \<noteq> example_prompt_001 data"
  by (simp add: example_prompt_000_def example_prompt_001_def prompt_head_000_def
      prompt_head_001_def)

subsection \<open>The serialiser on concrete values\<close>

lemma stringify_chunk_1: "JSON_stringify example_chunk_1 = example_chunk_text_1"
  by (simp add: example_chunk_1_def example_chunk_text_1_def QuoteJSONString_def json_escape_def
      non_finite_def)

lemma stringify_chunk_2: "JSON_stringify example_chunk_2 = example_chunk_text_2"
  by (simp add: example_chunk_2_def example_chunk_text_2_def QuoteJSONString_def json_escape_def
      non_finite_def)

lemma stringify_example_chunks:
  "JSON_stringify (JArr example_chunks) = ''['' @ example_chunk_text_1 @ '','' @ example_chunk_text_2 @ '']''"
  by (simp add: example_chunks_def stringify_chunk_1 stringify_chunk_2)

lemma stringify_special_values:
  "JSON_stringify (JArr [JNum ''Infinity'', JNum ''-Infinity'', JNum ''0'', JBool True, JNull]) =
     ''[null,null,0,true,null]'' \<and>
   JSON_stringify (JStr [CHR ''a'', CHR 0x22, CHR 0x5C, CHR 0x0A, CHR 0x01, CHR ''b'']) =
     [CHR 0x22, CHR ''a'', CHR 0x5C, CHR 0x22, CHR 0x5C, CHR 0x5C, CHR 0x5C, CHR ''n'',
      CHR 0x5C, CHR ''u'', CHR ''0'', CHR ''0'', CHR ''0'', CHR ''1'', CHR ''b'', CHR 0x22]"
  by (simp add: QuoteJSONString_def json_escape_def non_finite_def hex_digit_def)

subsection \<open>The example runs\<close>

lemma example_run_000:
  "truthy data \<Longrightarrow>
   POST example_env (example_fetch data) example_messages =
     ([Fetch example_request (Response (example_response data)),
       StreamText (example_args (example_prompt_000 data))],
      Inr (example_args (example_prompt_000 data)))"
  by (simp add: POST_def retrieveData_def Let_def example_env_def example_fetch_def
      example_messages_def example_request_def example_response_def example_args_def
      example_prompt_000_def)

lemma example_run_001:
  "truthy data \<Longrightarrow>
   POST_001 example_env (example_fetch data) example_messages =
     ([Fetch example_request (Response (example_response data)),
       StreamText (example_args (example_prompt_001 data))],
      Inr (example_args (example_prompt_001 data)))"
  by (simp add: POST_001_def retrieveData_001_def Let_def example_env_def example_fetch_def
      example_messages_def example_request_def example_response_def example_args_def
      example_prompt_001_def)

lemma example_run_falsy:
  "\<not> truthy data \<Longrightarrow>
   POST example_env (example_fetch data) example_messages =
     ([Fetch example_request (Response (example_response data)),
       StreamText (example_args ''What is Hypertension?'')],
      Inr (example_args ''What is Hypertension?''))"
  by (simp add: POST_def retrieveData_def Let_def example_env_def example_fetch_def
      example_messages_def example_request_def example_response_def example_args_def)

lemma example_run_failing:
  "POST example_env failing_fetch example_messages =
     ([Fetch example_request (Response error_response)],
      Inl (Error ''Failed to fetch data: Internal Server Error''))"
  by (simp add: POST_def retrieveData_def Let_def example_env_def failing_fetch_def
      example_messages_def example_request_def error_response_def)

lemma example_run_dialogue:
  "truthy data \<Longrightarrow>
   POST example_env (example_fetch data) example_dialogue =
     ([Fetch example_dialogue_request (Response (example_response data)),
       StreamText (example_dialogue_args data)],
      Inr (example_dialogue_args data))"
  by (simp add: POST_def retrieveData_def Let_def example_env_def example_fetch_def
      example_dialogue_def example_dialogue_request_def example_response_def
      example_dialogue_args_def)

section \<open>The claims\<close>

text \<open>
  C1, as stated, fails on the empty Conversation: with the retrieval credential unset and
  the model identifier set, the handler throws nothing and calls the generation service.
  The three guards on the credential, the URL and the API key stand inside
  \<^verbatim>\<open>retrieveData\<close>, which is only called for a non-empty Conversation.
\<close>

theorem C1_counterexample:
  "truthy_env (VECTORIZE_TOKEN example_env_no_token) = None \<and>
   POST example_env_no_token failing_fetch [] = ([StreamText empty_args], Inr empty_args)"
  by (simp add: POST_empty example_env_no_token_def example_env_def empty_args_def)

text \<open>
  C1, amended. If the model identifier is absent (undefined or empty), every request throws
  the \<^verbatim>\<open>MODEL\<close> configuration error and makes no outbound call. If the Conversation is
  non-empty and the retrieval credential, the retrieval URL or the generation API key is
  absent, the request throws one of the four configuration errors and makes no outbound
  call: neither the fetch nor the generation call.
\<close>

theorem C1_configuration_error_before_any_call:
  "(truthy_env (MODEL e) = None \<longrightarrow> POST e fetch ms = ([], Inl (Error MODEL_not_set))) \<and>
   (ms \<noteq> [] \<and>
    (truthy_env (VECTORIZE_TOKEN e) = None \<or> truthy_env (VECTORIZE_RETRIEVAL_URL e) = None \<or>
     truthy_env (GROQ_API_KEY e) = None) \<longrightarrow>
    POST e fetch ms \<in>
      {([], Inl (Error MODEL_not_set)), ([], Inl (Error VECTORIZE_TOKEN_not_set)),
       ([], Inl (Error pipelineRetrievalUrl_not_set)), ([], Inl (Error GROQ_API_KEY_not_set))})"
proof (intro conjI impI)
  assume "truthy_env (MODEL e) = None"
  then show "POST e fetch ms = ([], Inl (Error MODEL_not_set))"
    by (simp add: POST_def)
next
  assume a: "ms \<noteq> [] \<and>
    (truthy_env (VECTORIZE_TOKEN e) = None \<or> truthy_env (VECTORIZE_RETRIEVAL_URL e) = None \<or>
     truthy_env (GROQ_API_KEY e) = None)"
  then have "retrieveData e fetch (js_String (content (last ms))) (butlast ms) \<in>
           {([], Inl (Error VECTORIZE_TOKEN_not_set)), ([], Inl (Error pipelineRetrievalUrl_not_set)),
            ([], Inl (Error GROQ_API_KEY_not_set))}"
    by (intro retrieveData_config_error) simp
  with a show "POST e fetch ms \<in>
      {([], Inl (Error MODEL_not_set)), ([], Inl (Error VECTORIZE_TOKEN_not_set)),
       ([], Inl (Error pipelineRetrievalUrl_not_set)), ([], Inl (Error GROQ_API_KEY_not_set))}"
    by (auto simp: POST_def split: option.splits)
qed

text \<open>
  C1, amended, at the environment without a model (empty Conversation) and at the
  environment without a credential (one-question Conversation).
\<close>

theorem C1_configuration_error_before_any_call_witness:
  "truthy_env (MODEL example_env_no_model) = None \<and>
   POST example_env_no_model failing_fetch [] = ([], Inl (Error MODEL_not_set)) \<and>
   example_messages \<noteq> [] \<and> truthy_env (VECTORIZE_TOKEN example_env_no_token) = None \<and>
   POST example_env_no_token failing_fetch example_messages =
     ([], Inl (Error VECTORIZE_TOKEN_not_set))"
proof -
  have h1: "truthy_env (MODEL example_env_no_model) = None"
    by (simp add: example_env_no_model_def example_env_def)
  have h2: "example_messages \<noteq> []"
    by (simp add: example_messages_def)
  have h3: "truthy_env (VECTORIZE_TOKEN example_env_no_token) = None"
    by (simp add: example_env_no_token_def example_env_def)
  have r: "POST example_env_no_token failing_fetch example_messages =
     ([], Inl (Error VECTORIZE_TOKEN_not_set))"
    by (simp add: POST_def retrieveData_def example_env_no_token_def example_env_def
        example_messages_def)
  from C1_configuration_error_before_any_call [of example_env_no_model failing_fetch "[]"] h1
  have "POST example_env_no_model failing_fetch [] = ([], Inl (Error MODEL_not_set))"
    by blast
  moreover
  from C1_configuration_error_before_any_call [of example_env_no_token failing_fetch example_messages]
    h2 h3
  have "POST example_env_no_token failing_fetch example_messages \<in>
      {([], Inl (Error MODEL_not_set)), ([], Inl (Error VECTORIZE_TOKEN_not_set)),
       ([], Inl (Error pipelineRetrievalUrl_not_set)), ([], Inl (Error GROQ_API_KEY_not_set))}"
    by blast
  ultimately show ?thesis using h1 h2 h3 r by blast
qed

text \<open>
  C2. For a non-empty Conversation, when the retrieval fetch of the run settled with a body
  that is a list of chunks, the content of the last Turn passed to generation is a text
  that contains the original question (the string form of the last Turn's content) and the
  JSON text of every chunk of the list. In particular, for every chunk that is an object
  and every string property of it, the property name and its text stand in the content
  verbatim, as \<^verbatim>\<open>"name":"text"\<close>, whenever neither needs an escape. This holds for both
  versions of the handler, and needs neither the question nor the list to be non-empty.
\<close>

theorem C2_forwarded_content_contains_question_and_chunks:
  assumes "ms \<noteq> []"
    and "POST e fetch ms = (tr, Inr a) \<or> POST_001 e fetch ms = (tr, Inr a)"
    and "Fetch req (Response r) \<in> set tr"
    and "json_body r = Some (JArr cs)"
  shows "\<exists>t. content (last (messages a)) = Text t \<and>
             sublist (js_String (content (last ms))) t \<and>
             (\<forall>c \<in> set cs. sublist (JSON_stringify c) t) \<and>
             (\<forall>kvs k s. JObj kvs \<in> set cs \<longrightarrow> (k, JStr s) \<in> set kvs \<longrightarrow>
                needs_no_escape k \<longrightarrow> needs_no_escape s \<longrightarrow>
                sublist ([CHR 0x22] @ k @ [CHR 0x22] @ '':'' @ [CHR 0x22] @ s @ [CHR 0x22]) t)"
proof -
  let ?q = "js_String (content (last ms))"
  let ?c = "JSON_stringify (JArr cs)"
  from assms(2) obtain h m t where
    c: "content (last (messages a)) = Text (h @ ?q @ m @ ?c @ t)"
  proof
    assume "POST e fetch ms = (tr, Inr a)"
    from POST_success [OF this assms(1)] assms(1,3,4)
    have "content (last (messages a)) =
            Text (prompt_head_000 @ ?q @ prompt_mid_000 @ ?c @ prompt_tail_000)"
      by (auto simp: last_update_last)
    then show ?thesis by (rule that)
  next
    assume "POST_001 e fetch ms = (tr, Inr a)"
    from POST_001_success [OF this assms(1)] assms(1,3,4)
    have "content (last (messages a)) =
            Text (prompt_head_001 @ ?q @ prompt_mid_001 @ ?c @ prompt_tail_001)"
      by (auto simp: last_update_last)
    then show ?thesis by (rule that)
  qed
  have q: "sublist ?q (h @ ?q @ m @ ?c @ t)"
    by (rule sublist_appendI)
  have cs: "\<forall>c \<in> set cs. sublist (JSON_stringify c) (h @ ?q @ m @ ?c @ t)"
    by (intro ballI sublist_in_prompt sublist_stringify_element)
  have fs: "\<forall>kvs k s. JObj kvs \<in> set cs \<longrightarrow> (k, JStr s) \<in> set kvs \<longrightarrow>
              needs_no_escape k \<longrightarrow> needs_no_escape s \<longrightarrow>
              sublist ([CHR 0x22] @ k @ [CHR 0x22] @ '':'' @ [CHR 0x22] @ s @ [CHR 0x22])
                (h @ ?q @ m @ ?c @ t)"
    by (intro allI impI sublist_in_prompt sublist_plain_property)
  from c q cs fs show ?thesis by blast
qed

text \<open>
  C2 at the scenario of the specification: one question, two chunks, in both versions.
  The content holds the question, the JSON text of each chunk as written out in
  \<open>example_chunk_text_1\<close> and \<open>example_chunk_text_2\<close>, and the URL and the passage of
  the first chunk verbatim.
\<close>

theorem C2_forwarded_content_contains_question_and_chunks_witness:
  "example_messages \<noteq> [] \<and> js_String (content (last example_messages)) \<noteq> [] \<and>
   example_chunks \<noteq> [] \<and>
   POST example_env (example_fetch (JArr example_chunks)) example_messages =
     ([Fetch example_request (Response (example_response (JArr example_chunks))),
       StreamText (example_args (example_prompt_000 (JArr example_chunks)))],
      Inr (example_args (example_prompt_000 (JArr example_chunks)))) \<and>
   POST_001 example_env (example_fetch (JArr example_chunks)) example_messages =
     ([Fetch example_request (Response (example_response (JArr example_chunks))),
       StreamText (example_args (example_prompt_001 (JArr example_chunks)))],
      Inr (example_args (example_prompt_001 (JArr example_chunks)))) \<and>
   json_body (example_response (JArr example_chunks)) = Some (JArr example_chunks) \<and>
   (\<exists>t. content (last (messages (example_args (example_prompt_000 (JArr example_chunks))))) = Text t \<and>
        sublist ''What is Hypertension?'' t \<and>
        sublist example_chunk_text_1 t \<and> sublist example_chunk_text_2 t \<and>
        sublist ([CHR 0x22] @ ''sourceUrl'' @ [CHR 0x22] @ '':'' @
                 [CHR 0x22] @ ''https://a.example/x'' @ [CHR 0x22]) t \<and>
        sublist ([CHR 0x22] @ ''content'' @ [CHR 0x22] @ '':'' @
                 [CHR 0x22] @ ''Reduce salt.'' @ [CHR 0x22]) t) \<and>
   (\<exists>t. content (last (messages (example_args (example_prompt_001 (JArr example_chunks))))) = Text t \<and>
        sublist ''What is Hypertension?'' t \<and>
        sublist example_chunk_text_1 t \<and> sublist example_chunk_text_2 t \<and>
        sublist ([CHR 0x22] @ ''sourceUrl'' @ [CHR 0x22] @ '':'' @
                 [CHR 0x22] @ ''https://a.example/x'' @ [CHR 0x22]) t \<and>
        sublist ([CHR 0x22] @ ''content'' @ [CHR 0x22] @ '':'' @
                 [CHR 0x22] @ ''Reduce salt.'' @ [CHR 0x22]) t)"
proof -
  let ?kvs = "[(''sourceIndex'', JNum ''1''), (''sourceUrl'', JStr ''https://a.example/x''),
               (''content'', JStr ''Reduce salt.''), (''relevanceScore'', JNum ''0.87'')]"
  have t: "truthy (JArr example_chunks)" by simp
  have h1: "example_messages \<noteq> []"
    by (simp add: example_messages_def)
  have q: "js_String (content (last example_messages)) = ''What is Hypertension?''"
    by (simp add: example_messages_def)
  have cs: "example_chunks \<noteq> []"
    by (simp add: example_chunks_def)
  have m1: "example_chunk_1 \<in> set example_chunks" and m2: "example_chunk_2 \<in> set example_chunks"
    by (simp_all add: example_chunks_def)
  have o1: "JObj ?kvs \<in> set example_chunks"
    by (simp add: example_chunks_def example_chunk_1_def)
  have p1: "(''sourceUrl'', JStr ''https://a.example/x'') \<in> set ?kvs"
    and p2: "(''content'', JStr ''Reduce salt.'') \<in> set ?kvs"
    by simp_all
  have plain: "needs_no_escape ''sourceUrl''" "needs_no_escape ''https://a.example/x''"
    "needs_no_escape ''content''" "needs_no_escape ''Reduce salt.''"
    by (simp_all add: needs_no_escape_def)
  note r0 = example_run_000 [OF t]
  note r1 = example_run_001 [OF t]
  have f: "Fetch example_request (Response (example_response (JArr example_chunks)))
             \<in> set [Fetch example_request (Response (example_response (JArr example_chunks))), ev]" for ev
    by simp
  have b: "json_body (example_response (JArr example_chunks)) = Some (JArr example_chunks)"
    by (simp add: example_response_def)
  from C2_forwarded_content_contains_question_and_chunks [OF h1 disjI1 [OF r0] f b]
  obtain t0 where t0:
    "content (last (messages (example_args (example_prompt_000 (JArr example_chunks))))) = Text t0"
    "sublist (js_String (content (last example_messages))) t0"
    "\<forall>c \<in> set example_chunks. sublist (JSON_stringify c) t0"
    "\<forall>kvs k s. JObj kvs \<in> set example_chunks \<longrightarrow> (k, JStr s) \<in> set kvs \<longrightarrow>
       needs_no_escape k \<longrightarrow> needs_no_escape s \<longrightarrow>
       sublist ([CHR 0x22] @ k @ [CHR 0x22] @ '':'' @ [CHR 0x22] @ s @ [CHR 0x22]) t0"
    by blast
  from t0(3) m1 m2 have t0c: "sublist example_chunk_text_1 t0" "sublist example_chunk_text_2 t0"
    by (auto simp: stringify_chunk_1 [symmetric] stringify_chunk_2 [symmetric])
  from t0(4) o1 p1 p2 plain
  have t0f: "sublist ([CHR 0x22] @ ''sourceUrl'' @ [CHR 0x22] @ '':'' @
                 [CHR 0x22] @ ''https://a.example/x'' @ [CHR 0x22]) t0"
    "sublist ([CHR 0x22] @ ''content'' @ [CHR 0x22] @ '':'' @
                 [CHR 0x22] @ ''Reduce salt.'' @ [CHR 0x22]) t0"
    by blast+
  from C2_forwarded_content_contains_question_and_chunks [OF h1 disjI2 [OF r1] f b]
  obtain t1 where t1:
    "content (last (messages (example_args (example_prompt_001 (JArr example_chunks))))) = Text t1"
    "sublist (js_String (content (last example_messages))) t1"
    "\<forall>c \<in> set example_chunks. sublist (JSON_stringify c) t1"
    "\<forall>kvs k s. JObj kvs \<in> set example_chunks \<longrightarrow> (k, JStr s) \<in> set kvs \<longrightarrow>
       needs_no_escape k \<longrightarrow> needs_no_escape s \<longrightarrow>
       sublist ([CHR 0x22] @ k @ [CHR 0x22] @ '':'' @ [CHR 0x22] @ s @ [CHR 0x22]) t1"
    by blast
  from t1(3) m1 m2 have t1c: "sublist example_chunk_text_1 t1" "sublist example_chunk_text_2 t1"
    by (auto simp: stringify_chunk_1 [symmetric] stringify_chunk_2 [symmetric])
  from t1(4) o1 p1 p2 plain
  have t1f: "sublist ([CHR 0x22] @ ''sourceUrl'' @ [CHR 0x22] @ '':'' @
                 [CHR 0x22] @ ''https://a.example/x'' @ [CHR 0x22]) t1"
    "sublist ([CHR 0x22] @ ''content'' @ [CHR 0x22] @ '':'' @
                 [CHR 0x22] @ ''Reduce salt.'' @ [CHR 0x22]) t1"
    by blast+
  have e0: "\<exists>t. content (last (messages (example_args (example_prompt_000 (JArr example_chunks))))) = Text t \<and>
        sublist ''What is Hypertension?'' t \<and>
        sublist example_chunk_text_1 t \<and> sublist example_chunk_text_2 t \<and>
        sublist ([CHR 0x22] @ ''sourceUrl'' @ [CHR 0x22] @ '':'' @
                 [CHR 0x22] @ ''https://a.example/x'' @ [CHR 0x22]) t \<and>
        sublist ([CHR 0x22] @ ''content'' @ [CHR 0x22] @ '':'' @
                 [CHR 0x22] @ ''Reduce salt.'' @ [CHR 0x22]) t"
    using t0(1) t0(2) [unfolded q] t0c t0f by blast
  have e1: "\<exists>t. content (last (messages (example_args (example_prompt_001 (JArr example_chunks))))) = Text t \<and>
        sublist ''What is Hypertension?'' t \<and>
        sublist example_chunk_text_1 t \<and> sublist example_chunk_text_2 t \<and>
        sublist ([CHR 0x22] @ ''sourceUrl'' @ [CHR 0x22] @ '':'' @
                 [CHR 0x22] @ ''https://a.example/x'' @ [CHR 0x22]) t \<and>
        sublist ([CHR 0x22] @ ''content'' @ [CHR 0x22] @ '':'' @
                 [CHR 0x22] @ ''Reduce salt.'' @ [CHR 0x22]) t"
    using t1(1) t1(2) [unfolded q] t1c t1f by blast
  have q': "js_String (content (last example_messages)) \<noteq> []"
    by (simp add: q)
  from h1 q' cs r0 r1 b e0 e1 show ?thesis
    by (intro conjI)
qed




text \<open>
  C4, as stated, fails for the second version at the scenario of the specification: the
  rewritten content of \<^verbatim>\<open>part_001\<close> states no citation rule. Neither "citation" nor
  "cite" nor the markdown link syntax occurs in it.
\<close>

theorem C4_counterexample:
  "POST_001 example_env (example_fetch (JArr example_chunks)) example_messages =
     ([Fetch example_request (Response (example_response (JArr example_chunks))),
       StreamText (example_args (example_prompt_001 (JArr example_chunks)))],
      Inr (example_args (example_prompt_001 (JArr example_chunks)))) \<and>
   \<not> sublist ''citation'' (example_prompt_001 (JArr example_chunks)) \<and>
   \<not> sublist ''cite'' (example_prompt_001 (JArr example_chunks)) \<and>
   \<not> sublist '']('' (example_prompt_001 (JArr example_chunks))"
proof -
  have p: "example_prompt_001 (JArr example_chunks) =
             prompt_head_001 @ ''What is Hypertension?'' @ prompt_mid_001 @
             (''['' @ example_chunk_text_1 @ '','' @ example_chunk_text_2 @ '']'') @ prompt_tail_001"
    by (simp only: example_prompt_001_def stringify_example_chunks)
  have n1: "\<not> sublist ''citation'' (example_prompt_001 (JArr example_chunks))"
    unfolding p
    by (simp add: example_chunk_text_1_def example_chunk_text_2_def prompt_head_001_def
        prompt_mid_001_def prompt_tail_001_def sublist_Cons_right)
  have n2: "\<not> sublist ''cite'' (example_prompt_001 (JArr example_chunks))"
    unfolding p
    by (simp add: example_chunk_text_1_def example_chunk_text_2_def prompt_head_001_def
        prompt_mid_001_def prompt_tail_001_def sublist_Cons_right)
  have n3: "\<not> sublist '']('' (example_prompt_001 (JArr example_chunks))"
    unfolding p
    by (simp add: example_chunk_text_1_def example_chunk_text_2_def prompt_head_001_def
        prompt_mid_001_def prompt_tail_001_def sublist_Cons_right)
  have t: "truthy (JArr example_chunks)" by simp
  from n1 n2 n3 example_run_001 [OF t] show ?thesis
    by (simp only: simp_thms)
qed

text \<open>
  C4, amended. For a non-empty Conversation and a truthy retrieval result, the rewritten
  content of the last Turn is the version's fixed text around two insertions: the string
  form of the original content, and \<^verbatim>\<open>JSON.stringify\<close> of the result exactly as the
  retrieval service returned it, so that a chunk carries its index and URL in the prompt
  as the fields it was returned with. The fixed text of \<^verbatim>\<open>part_000\<close> after the chunks
  states the citation format \<^verbatim>\<open>[Chunk source](URL)\<close> with the example
  \<^verbatim>\<open>[3](https://example.com/page)\<close>.
\<close>

theorem C4_rewritten_prompt_structure:
  assumes "ms \<noteq> []"
    and "Fetch req (Response r) \<in> set tr" and "json_body r = Some ctx" and "truthy ctx"
  shows "(POST e fetch ms = (tr, Inr a) \<longrightarrow>
            content (last (messages a)) =
              Text (prompt_head_000 @ js_String (content (last ms)) @ prompt_mid_000 @
                    JSON_stringify ctx @ prompt_tail_000)) \<and>
         (POST_001 e fetch ms = (tr, Inr a) \<longrightarrow>
            content (last (messages a)) =
              Text (prompt_head_001 @ js_String (content (last ms)) @ prompt_mid_001 @
                    JSON_stringify ctx @ prompt_tail_001)) \<and>
         sublist ''[Chunk source](URL)'' prompt_tail_000 \<and>
         sublist ''[3](https://example.com/page)'' prompt_tail_000"
proof (intro conjI impI)
  assume "POST e fetch ms = (tr, Inr a)"
  from POST_success [OF this assms(1)] assms show "content (last (messages a)) =
              Text (prompt_head_000 @ js_String (content (last ms)) @ prompt_mid_000 @
                    JSON_stringify ctx @ prompt_tail_000)"
    by (auto simp: last_update_last)
next
  assume "POST_001 e fetch ms = (tr, Inr a)"
  from POST_001_success [OF this assms(1)] assms show "content (last (messages a)) =
              Text (prompt_head_001 @ js_String (content (last ms)) @ prompt_mid_001 @
                    JSON_stringify ctx @ prompt_tail_001)"
    by (auto simp: last_update_last)
qed (simp_all add: citation_rules_000)

text \<open>
  C4, amended, at the scenario of the specification, in both versions, with the JSON text
  of the two chunks written out.
\<close>

theorem C4_rewritten_prompt_structure_witness:
  "example_messages \<noteq> [] \<and> truthy (JArr example_chunks) \<and>
   json_body (example_response (JArr example_chunks)) = Some (JArr example_chunks) \<and>
   POST example_env (example_fetch (JArr example_chunks)) example_messages =
     ([Fetch example_request (Response (example_response (JArr example_chunks))),
       StreamText (example_args (example_prompt_000 (JArr example_chunks)))],
      Inr (example_args (example_prompt_000 (JArr example_chunks)))) \<and>
   POST_001 example_env (example_fetch (JArr example_chunks)) example_messages =
     ([Fetch example_request (Response (example_response (JArr example_chunks))),
       StreamText (example_args (example_prompt_001 (JArr example_chunks)))],
      Inr (example_args (example_prompt_001 (JArr example_chunks)))) \<and>
   content (last (messages (example_args (example_prompt_000 (JArr example_chunks))))) =
     Text (prompt_head_000 @ ''What is Hypertension?'' @ prompt_mid_000 @
           (''['' @ example_chunk_text_1 @ '','' @ example_chunk_text_2 @ '']'') @
           prompt_tail_000) \<and>
   content (last (messages (example_args (example_prompt_001 (JArr example_chunks))))) =
     Text (prompt_head_001 @ ''What is Hypertension?'' @ prompt_mid_001 @
           (''['' @ example_chunk_text_1 @ '','' @ example_chunk_text_2 @ '']'') @
           prompt_tail_001)"
proof -
  have t: "truthy (JArr example_chunks)" by simp
  have h1: "example_messages \<noteq> []"
    by (simp add: example_messages_def)
  have q: "js_String (content (last example_messages)) = ''What is Hypertension?''"
    by (simp add: example_messages_def)
  note r0 = example_run_000 [OF t]
  note r1 = example_run_001 [OF t]
  have f: "Fetch example_request (Response (example_response (JArr example_chunks)))
             \<in> set [Fetch example_request (Response (example_response (JArr example_chunks))), ev]" for ev
    by simp
  have b: "json_body (example_response (JArr example_chunks)) = Some (JArr example_chunks)"
    by (simp add: example_response_def)
  from C4_rewritten_prompt_structure [OF h1 f b t, of example_env "example_fetch (JArr example_chunks)"] r0
  have c0: "content (last (messages (example_args (example_prompt_000 (JArr example_chunks))))) =
     Text (prompt_head_000 @ js_String (content (last example_messages)) @ prompt_mid_000 @
           JSON_stringify (JArr example_chunks) @ prompt_tail_000)"
    by blast
  from C4_rewritten_prompt_structure [OF h1 f b t, of example_env "example_fetch (JArr example_chunks)"] r1
  have c1: "content (last (messages (example_args (example_prompt_001 (JArr example_chunks))))) =
     Text (prompt_head_001 @ js_String (content (last example_messages)) @ prompt_mid_001 @
           JSON_stringify (JArr example_chunks) @ prompt_tail_001)"
    by blast
  from h1 t b r0 r1 c0 [unfolded q stringify_example_chunks] c1 [unfolded q stringify_example_chunks]
  show ?thesis
    by (intro conjI)
qed

text \<open>
  C5. When the retrieval service answers a request with a non-success status, the handler
  throws an error carrying the upstream status text; the run made that one fetch and
  nothing else: no second fetch and no call of the generation service.
\<close>

theorem C5_retrieval_failure_aborts:
  assumes "Fetch req (Response r) \<in> set (fst (POST e fetch ms))" and "\<not> ok r"
  shows "POST e fetch ms =
           ([Fetch req (Response r)], Inl (Error (''Failed to fetch data: '' @ statusText r)))"
proof -
  let ?rd = "retrieveData e fetch (js_String (content (last ms))) (butlast ms)"
  from POST_Fetch [OF assms(1)]
  have ne: "ms \<noteq> []" and in_rd: "Fetch req (Response r) \<in> set (fst ?rd)"
    by simp_all
  from retrieveData_Fetch [OF in_rd] have tr: "fst ?rd = [Fetch req (Response r)]"
    by blast
  from retrieveData_not_ok [OF tr assms(2)]
  have out: "snd ?rd = Inl (Error (''Failed to fetch data: '' @ statusText r))" .
  from assms(1) obtain mdl where "truthy_env (MODEL e) = Some mdl"
    by (auto simp: POST_def split: option.splits)
  from POST_Inl [OF ne out this] tr show ?thesis by simp
qed

text \<open>
  C5 at the retrieval service that answers with a server error.
\<close>

theorem C5_retrieval_failure_aborts_witness:
  "Fetch example_request (Response error_response)
     \<in> set (fst (POST example_env failing_fetch example_messages)) \<and>
   \<not> ok error_response \<and>
   POST example_env failing_fetch example_messages =
     ([Fetch example_request (Response error_response)],
      Inl (Error (''Failed to fetch data: '' @ statusText error_response)))"
proof -
  have h1: "Fetch example_request (Response error_response)
              \<in> set (fst (POST example_env failing_fetch example_messages))"
    by (simp add: example_run_failing)
  have h2: "\<not> ok error_response"
    by (simp add: error_response_def)
  from h1 h2 C5_retrieval_failure_aborts [OF h1 h2] show ?thesis by blast
qed

text \<open>
  C6. On a Conversation with zero Turns the handler makes no fetch at all, and, the model
  identifier being configured, it calls generation once, with the empty Conversation.
\<close>

theorem C6_empty_conversation_skips_retrieval:
  "Fetch req res \<notin> set (fst (POST e fetch [])) \<and>
   (truthy_env (MODEL e) = Some mdl \<longrightarrow>
    POST e fetch [] =
      ([StreamText \<lparr>model = mdl, system = system_instruction, messages = []\<rparr>],
       Inr \<lparr>model = mdl, system = system_instruction, messages = []\<rparr>))"
  by (simp add: POST_empty split: option.splits)

text \<open>
  C6 at the complete environment.
\<close>

theorem C6_empty_conversation_skips_retrieval_witness:
  "truthy_env (MODEL example_env) = Some ''llama-3.3-70b-versatile'' \<and>
   Fetch example_request (failing_fetch example_request)
     \<notin> set (fst (POST example_env failing_fetch [])) \<and>
   POST example_env failing_fetch [] = ([StreamText empty_args], Inr empty_args)"
proof -
  have h: "truthy_env (MODEL example_env) = Some ''llama-3.3-70b-versatile''"
    by (simp add: example_env_def)
  from C6_empty_conversation_skips_retrieval
    [of example_request "failing_fetch example_request" example_env failing_fetch
      "''llama-3.3-70b-versatile''"] h
  show ?thesis by (simp add: empty_args_def)
qed

text \<open>
  C7. Every fetch the handler makes belongs to a non-empty Conversation and carries the
  payload with \<^verbatim>\<open>question\<close> the string form of the last Turn's content,
  \<^verbatim>\<open>numResults\<close> 5 and \<^verbatim>\<open>rerank\<close> true; the payload has a \<^verbatim>\<open>context\<close> holding the prior
  Turns exactly when there is at least one prior Turn; the request goes by POST to the
  configured URL with the credential as the \<^verbatim>\<open>Authorization\<close> header.
\<close>

theorem C7_retrieval_request:
  assumes "Fetch req res \<in> set (fst (POST e fetch ms))"
  shows "ms \<noteq> [] \<and>
         question (body req) = js_String (content (last ms)) \<and>
         numResults (body req) = 5 \<and> rerank (body req) \<and>
         payload_context (body req) = (if butlast ms \<noteq> [] then Some (butlast ms) else None) \<and>
         (payload_context (body req) \<noteq> None \<longleftrightarrow> 2 \<le> length ms) \<and>
         truthy_env (VECTORIZE_RETRIEVAL_URL e) = Some (url req) \<and>
         http_method req = ''POST'' \<and>
         (\<exists>token. truthy_env (VECTORIZE_TOKEN e) = Some token \<and>
            headers req = [(''Content-Type'', ''application/json''), (''Authorization'', token)])"
proof -
  from POST_Fetch [OF assms] have ne: "ms \<noteq> []"
    and f: "Fetch req res \<in> set (fst (retrieveData e fetch (js_String (content (last ms))) (butlast ms)))"
    by simp_all
  from ne have len: "butlast ms \<noteq> [] \<longleftrightarrow> 2 \<le> length ms"
    by (cases ms rule: rev_cases) (auto simp: Suc_le_eq)
  from retrieveData_Fetch [OF f] ne len show ?thesis
    by auto
qed

text \<open>
  C7 at the three-turn Conversation, whose two prior Turns go into the payload.
\<close>

theorem C7_retrieval_request_witness:
  "Fetch example_dialogue_request (Response (example_response (JArr example_chunks)))
     \<in> set (fst (POST example_env (example_fetch (JArr example_chunks)) example_dialogue)) \<and>
   question (body example_dialogue_request) = ''How is it treated?'' \<and>
   numResults (body example_dialogue_request) = 5 \<and>
   rerank (body example_dialogue_request) \<and>
   payload_context (body example_dialogue_request) = Some (butlast example_dialogue) \<and>
   headers example_dialogue_request =
     [(''Content-Type'', ''application/json''), (''Authorization'', ''token'')]"
proof -
  have h: "Fetch example_dialogue_request (Response (example_response (JArr example_chunks)))
     \<in> set (fst (POST example_env (example_fetch (JArr example_chunks)) example_dialogue))"
    by (simp add: example_run_dialogue)
  from C7_retrieval_request [OF h] h show ?thesis
    by (simp add: example_dialogue_def example_env_def)
qed

text \<open>
  C8. On a non-empty Conversation, a run that calls generation has made exactly one call
  before it: the retrieval fetch, already settled, with a success response whose body
  parsed. The Conversation passed to generation is determined by that result. So a fetch
  that is rejected, answered with a non-success status or with an unparsable body is
  followed by no generation call.
\<close>

theorem C8_generation_follows_retrieval:
  assumes "ms \<noteq> []" and "StreamText a \<in> set (fst (POST e fetch ms))"
  shows "\<exists>req r ctx.
           fst (POST e fetch ms) = [Fetch req (Response r), StreamText a] \<and>
           fetch req = Response r \<and> ok r \<and> json_body r = Some ctx \<and>
           messages a =
             (if truthy ctx
              then ms[length ms - 1 := (last ms)\<lparr>content :=
                     Text (prompt_head_000 @ js_String (content (last ms)) @
                           prompt_mid_000 @ JSON_stringify ctx @ prompt_tail_000)\<rparr>]
              else ms)"
proof -
  from POST_StreamText [OF assms(2)]
  have run: "POST e fetch ms = (fst (POST e fetch ms), Inr a)"
    by (simp add: prod_eq_iff)
  from POST_success [OF run assms(1)] show ?thesis
    by auto
qed

text \<open>
  C8 at the scenario of the specification.
\<close>

theorem C8_generation_follows_retrieval_witness:
  "example_messages \<noteq> [] \<and>
   StreamText (example_args (example_prompt_000 (JArr example_chunks)))
     \<in> set (fst (POST example_env (example_fetch (JArr example_chunks)) example_messages)) \<and>
   (\<exists>req r ctx.
      fst (POST example_env (example_fetch (JArr example_chunks)) example_messages) =
        [Fetch req (Response r),
         StreamText (example_args (example_prompt_000 (JArr example_chunks)))] \<and>
      example_fetch (JArr example_chunks) req = Response r \<and> ok r \<and> json_body r = Some ctx)"
proof -
  have t: "truthy (JArr example_chunks)" by simp
  have h1: "example_messages \<noteq> []"
    by (simp add: example_messages_def)
  have h2: "StreamText (example_args (example_prompt_000 (JArr example_chunks)))
     \<in> set (fst (POST example_env (example_fetch (JArr example_chunks)) example_messages))"
    by (simp add: example_run_000 [OF t])
  from C8_generation_follows_retrieval [OF h1 h2] h1 h2 show ?thesis
    by blast
qed

text \<open>
  C9. On a non-empty Conversation the Conversation passed to generation has the same
  length, the same Turns before the last one, and a last Turn with the same role: only the
  content of the last Turn can differ.
\<close>

theorem C9_only_last_content_replaced:
  assumes "ms \<noteq> []" and "POST e fetch ms = (tr, Inr a)"
  shows "length (messages a) = length ms \<and>
         butlast (messages a) = butlast ms \<and>
         (\<forall>i. i < length ms - 1 \<longrightarrow> messages a ! i = ms ! i) \<and>
         role (last (messages a)) = role (last ms)"
proof -
  from POST_success [OF assms(2,1)] obtain ctx where
    m: "messages a =
          (if truthy ctx
           then ms[length ms - 1 := (last ms)\<lparr>content :=
                  Text (prompt_head_000 @ js_String (content (last ms)) @
                        prompt_mid_000 @ JSON_stringify ctx @ prompt_tail_000)\<rparr>]
           else ms)"
    by force
  show ?thesis
  proof (cases "truthy ctx")
    case True
    with m assms(1) show ?thesis
      by (simp add: last_update_last butlast_update_last)
  next
    case False
    with m show ?thesis by simp
  qed
qed

text \<open>
  C9 at the three-turn Conversation, where the rewrite occurs.
\<close>

theorem C9_only_last_content_replaced_witness:
  "example_dialogue \<noteq> [] \<and>
   POST example_env (example_fetch (JArr example_chunks)) example_dialogue =
     ([Fetch example_dialogue_request (Response (example_response (JArr example_chunks))),
       StreamText (example_dialogue_args (JArr example_chunks))],
      Inr (example_dialogue_args (JArr example_chunks))) \<and>
   length (messages (example_dialogue_args (JArr example_chunks))) = length example_dialogue \<and>
   butlast (messages (example_dialogue_args (JArr example_chunks))) = butlast example_dialogue \<and>
   role (last (messages (example_dialogue_args (JArr example_chunks)))) =
     role (last example_dialogue)"
proof -
  have t: "truthy (JArr example_chunks)" by simp
  have h1: "example_dialogue \<noteq> []"
    by (simp add: example_dialogue_def)
  note h2 = example_run_dialogue [OF t]
  from C9_only_last_content_replaced [OF h1 h2] h1 h2 show ?thesis
    by blast
qed

text \<open>
  C10, as stated, fails at the scenario of the specification: the two versions insert the
  question and the chunks into different fixed texts, so they pass different content to
  generation.
\<close>

theorem C10_counterexample:
  "POST example_env (example_fetch (JArr example_chunks)) example_messages \<noteq>
   POST_001 example_env (example_fetch (JArr example_chunks)) example_messages"
  by (simp add: example_run_000 example_run_001 example_args_def example_prompts_differ)

text \<open>
  C10, amended. The two versions throw the same errors after the same calls. When
  \<^verbatim>\<open>part_000\<close> reaches generation, so does \<^verbatim>\<open>part_001\<close>, after the same fetch, with the same
  model, the same system instruction, the same Turns before the last one and the same
  roles. When no fetch of the run returned a truthy result (no rewrite), the arguments are
  the same altogether. When the fetch returned a truthy result (rewrite), each version
  puts the same question and the same serialised result into its own fixed text, and the
  two contents of the last Turn differ.
\<close>

theorem C10_versions_agree_except_template:
  "(POST_001 e fetch ms = (tr, Inl err) \<longleftrightarrow> POST e fetch ms = (tr, Inl err)) \<and>
   (POST e fetch ms = (tr, Inr a) \<longrightarrow>
      (\<exists>a'. POST_001 e fetch ms = (butlast tr @ [StreamText a'], Inr a') \<and>
            model a' = model a \<and> system a' = system a \<and>
            butlast (messages a') = butlast (messages a) \<and>
            map role (messages a') = map role (messages a) \<and>
            ((\<forall>req r ctx. Fetch req (Response r) \<in> set tr \<longrightarrow> json_body r = Some ctx \<longrightarrow>
                \<not> truthy ctx) \<longrightarrow> a' = a) \<and>
            (\<forall>req r ctx. Fetch req (Response r) \<in> set tr \<longrightarrow> json_body r = Some ctx \<longrightarrow>
                truthy ctx \<longrightarrow>
                content (last (messages a)) =
                  Text (prompt_head_000 @ js_String (content (last ms)) @ prompt_mid_000 @
                        JSON_stringify ctx @ prompt_tail_000) \<and>
                content (last (messages a')) =
                  Text (prompt_head_001 @ js_String (content (last ms)) @ prompt_mid_001 @
                        JSON_stringify ctx @ prompt_tail_001) \<and>
                content (last (messages a')) \<noteq> content (last (messages a)))))"
proof (cases "ms = []")
  case True
  then show ?thesis
    by (auto simp: POST_001_empty POST_empty split: option.splits)
next
  case ne: False
  let ?rd = "retrieveData e fetch (js_String (content (last ms))) (butlast ms)"
  show ?thesis
  proof (cases "truthy_env (MODEL e)")
    case None
    then show ?thesis
      by (simp add: POST_def POST_001_def)
  next
    case (Some mdl)
    obtain tr0 out where rd: "?rd = (tr0, out)"
      by (cases ?rd)
    show ?thesis
    proof (cases out)
      case (Inl x)
      with ne Some rd show ?thesis
        by (simp add: POST_def POST_001_def retrieveData_001_eq)
    next
      case (Inr ctx)
      from retrieveData_Inr [OF rd [unfolded Inr]] obtain req r where
        f: "tr0 = [Fetch req (Response r)]" "json_body r = Some ctx"
        by blast
      show ?thesis
      proof (cases "truthy ctx")
        case True
        with ne Some rd Inr f show ?thesis
          by (auto simp: POST_def POST_001_def retrieveData_001_eq Let_def
              butlast_update_last map_role_update_last last_update_last prompts_differ
              prompts_differ [THEN not_sym])
      next
        case False
        with ne Some rd Inr f show ?thesis
          by (auto simp: POST_def POST_001_def retrieveData_001_eq Let_def)
      qed
    qed
  qed
qed

text \<open>
  C10, amended, at the scenario of the specification, where the rewrite occurs and the
  contents differ, and at the one-question Conversation with the result null, where the
  two versions pass the same arguments.
\<close>

theorem C10_versions_agree_except_template_witness:
  "POST example_env (example_fetch (JArr example_chunks)) example_messages =
     ([Fetch example_request (Response (example_response (JArr example_chunks))),
       StreamText (example_args (example_prompt_000 (JArr example_chunks)))],
      Inr (example_args (example_prompt_000 (JArr example_chunks)))) \<and>
   json_body (example_response (JArr example_chunks)) = Some (JArr example_chunks) \<and>
   truthy (JArr example_chunks) \<and>
   (\<exists>a'. POST_001 example_env (example_fetch (JArr example_chunks)) example_messages =
           ([Fetch example_request (Response (example_response (JArr example_chunks))),
             StreamText a'], Inr a') \<and>
         model a' = model (example_args (example_prompt_000 (JArr example_chunks))) \<and>
         system a' = system (example_args (example_prompt_000 (JArr example_chunks))) \<and>
         butlast (messages a') =
           butlast (messages (example_args (example_prompt_000 (JArr example_chunks)))) \<and>
         map role (messages a') =
           map role (messages (example_args (example_prompt_000 (JArr example_chunks)))) \<and>
         content (last (messages a')) =
           Text (prompt_head_001 @ ''What is Hypertension?'' @ prompt_mid_001 @
                 (''['' @ example_chunk_text_1 @ '','' @ example_chunk_text_2 @ '']'') @
                 prompt_tail_001) \<and>
         content (last (messages a')) \<noteq>
           content (last (messages (example_args (example_prompt_000 (JArr example_chunks)))))) \<and>
   POST example_env (example_fetch JNull) example_messages =
     ([Fetch example_request (Response (example_response JNull)),
       StreamText (example_args ''What is Hypertension?'')],
      Inr (example_args ''What is Hypertension?'')) \<and>
   POST_001 example_env (example_fetch JNull) example_messages =
     ([Fetch example_request (Response (example_response JNull)),
       StreamText (example_args ''What is Hypertension?'')],
      Inr (example_args ''What is Hypertension?''))"
proof -
  let ?T = "[Fetch example_request (Response (example_response (JArr example_chunks))),
             StreamText (example_args (example_prompt_000 (JArr example_chunks)))]"
  let ?A = "example_args (example_prompt_000 (JArr example_chunks))"
  have t: "truthy (JArr example_chunks)" by simp
  have q: "js_String (content (last example_messages)) = ''What is Hypertension?''"
    by (simp add: example_messages_def)
  note r0 = example_run_000 [OF t]
  have f: "Fetch example_request (Response (example_response (JArr example_chunks))) \<in> set ?T"
    by simp
  have b: "json_body (example_response (JArr example_chunks)) = Some (JArr example_chunks)"
    by (simp add: example_response_def)
  have bl: "butlast ?T = [Fetch example_request (Response (example_response (JArr example_chunks)))]"
    by simp
  from C10_versions_agree_except_template
    [of example_env "example_fetch (JArr example_chunks)" example_messages ?T _ ?A] r0
  obtain a' where a':
    "POST_001 example_env (example_fetch (JArr example_chunks)) example_messages =
       (butlast ?T @ [StreamText a'], Inr a')"
    "model a' = model ?A" "system a' = system ?A"
    "butlast (messages a') = butlast (messages ?A)"
    "map role (messages a') = map role (messages ?A)"
    "\<forall>req r ctx. Fetch req (Response r) \<in> set ?T \<longrightarrow> json_body r = Some ctx \<longrightarrow>
        truthy ctx \<longrightarrow>
        content (last (messages ?A)) =
          Text (prompt_head_000 @ js_String (content (last example_messages)) @ prompt_mid_000 @
                JSON_stringify ctx @ prompt_tail_000) \<and>
        content (last (messages a')) =
          Text (prompt_head_001 @ js_String (content (last example_messages)) @ prompt_mid_001 @
                JSON_stringify ctx @ prompt_tail_001) \<and>
        content (last (messages a')) \<noteq> content (last (messages ?A))"
    by blast
  from a'(6) f b t have d:
    "content (last (messages a')) =
          Text (prompt_head_001 @ js_String (content (last example_messages)) @ prompt_mid_001 @
                JSON_stringify (JArr example_chunks) @ prompt_tail_001)"
    "content (last (messages a')) \<noteq> content (last (messages ?A))"
    by blast+
  have rewrite: "\<exists>a'. POST_001 example_env (example_fetch (JArr example_chunks)) example_messages =
           ([Fetch example_request (Response (example_response (JArr example_chunks))),
             StreamText a'], Inr a') \<and>
         model a' = model ?A \<and> system a' = system ?A \<and>
         butlast (messages a') = butlast (messages ?A) \<and>
         map role (messages a') = map role (messages ?A) \<and>
         content (last (messages a')) =
           Text (prompt_head_001 @ ''What is Hypertension?'' @ prompt_mid_001 @
                 (''['' @ example_chunk_text_1 @ '','' @ example_chunk_text_2 @ '']'') @
                 prompt_tail_001) \<and>
         content (last (messages a')) \<noteq> content (last (messages ?A))"
    using a'(1) [unfolded bl] a'(2-5) d(1) [unfolded q stringify_example_chunks] d(2)
    by (intro exI [of _ a']) simp
  have n: "\<not> truthy JNull" by simp
  note r = example_run_falsy [OF n]
  have h: "\<forall>req r ctx. Fetch req (Response r)
             \<in> set [Fetch example_request (Response (example_response JNull)),
                     StreamText (example_args ''What is Hypertension?'')] \<longrightarrow>
           json_body r = Some ctx \<longrightarrow> \<not> truthy ctx"
    by (auto simp: example_response_def)
  from C10_versions_agree_except_template
    [of example_env "example_fetch JNull" example_messages
      "[Fetch example_request (Response (example_response JNull)),
        StreamText (example_args ''What is Hypertension?'')]" _
      "example_args ''What is Hypertension?''"] r h
  have same: "POST_001 example_env (example_fetch JNull) example_messages =
     ([Fetch example_request (Response (example_response JNull)),
       StreamText (example_args ''What is Hypertension?'')],
      Inr (example_args ''What is Hypertension?''))"
    by auto
  from r0 b t rewrite r same show ?thesis
    by (intro conjI)
qed

end
